theory Spec2Isabelle
  imports Main "HOL-Library.Multiset" "HOL-Library.Char_ord" "HOL-Library.List_Lexorder"
begin

section \<open>Serialized values and exceptions\<close>

text \<open>
  A serializer's \<^verbatim>\<open>.data\<close> is built from Python primitives: \<^verbatim>\<open>None\<close>, booleans, integers,
  strings, lists and dictionaries. A dictionary keeps the order in which its keys
  were inserted, so it is an association list.
\<close>

datatype pyval =
    PyNone
  | PyBool bool
  | PyInt int
  | PyStr string
  | PyList "pyval list"
  | PyDict "(string \<times> pyval) list"

text \<open>
  The exceptions that can leave a serializer: the \<^verbatim>\<open>APIException\<close> of the gas price serializer
  with its message, the \<^verbatim>\<open>AttributeError\<close> of a failed attribute lookup with the name of the
  field, and \<^verbatim>\<open>decimal.InvalidOperation\<close>.
\<close>

datatype exn =
    APIException string
  | AttributeError string
  | InvalidOperation

text \<open>
  A finite \<^verbatim>\<open>decimal.Decimal\<close>: sign (\<open>True\<close> for negative), coefficient and exponent; its
  value is the coefficient times ten to the exponent, negated when the sign is set.
\<close>

datatype decimal = Decimal bool nat int

section \<open>The records the serializers read\<close>

text \<open>
  The model classes \<^verbatim>\<open>Chain\<close>, \<^verbatim>\<open>GasPrice\<close>, \<^verbatim>\<open>Wallet\<close> and \<^verbatim>\<open>Feature\<close> are imported from
  \<^verbatim>\<open>.models\<close>; the records below carry the attributes that \<^verbatim>\<open>serializers.py\<close> reads from
  them. An attribute for which a record may hold \<^verbatim>\<open>None\<close> is an \<open>option\<close>.

  \<^verbatim>\<open>chain\<close> of a gas price is the text that the f-string \<^verbatim>\<open>{instance.chain}\<close> interpolates.
\<close>

record GasPrice =
  chain :: string
  oracle_uri :: "string option"
  oracle_parameter :: "string option"
  gwei_factor :: decimal
  fixed_wei_value :: "int option"
  rank :: int

record Wallet =
  key :: string

record Feature =
  key :: string

text \<open>
  An image attribute is a file handle: the stored file's name (empty when there is no file)
  and the URL the storage gives it.
\<close>

datatype ImageFieldFile = ImageFieldFile string string

text \<open>
  \<^verbatim>\<open>id_attr\<close> is the chain's \<^verbatim>\<open>id\<close>. \<^verbatim>\<open>gasprice_set\<close> and \<^verbatim>\<open>feature_set\<close> are the rows of the
  related managers, \<^verbatim>\<open>disabled_wallets\<close> the rows that the model method
  \<^verbatim>\<open>get_disabled_wallets()\<close> yields, each in the order the database returns them.
\<close>

record Chain =
  id_attr :: int
  name :: string
  short_name :: string
  description :: string
  l2 :: bool
  rpc_authentication :: string
  rpc_uri :: string
  safe_apps_rpc_authentication :: string
  safe_apps_rpc_uri :: string
  block_explorer_uri_address_template :: string
  block_explorer_uri_tx_hash_template :: string
  block_explorer_uri_api_template :: string
  currency_name :: string
  currency_symbol :: string
  currency_decimals :: int
  currency_logo_uri :: ImageFieldFile
  transaction_service_uri :: "string option"
  vpc_transaction_service_uri :: string
  theme_text_color :: string
  theme_background_color :: string
  ens_registry_address :: "string option"
  recommended_master_copy_version :: string
  gasprice_set :: "GasPrice list"
  disabled_wallets :: "Wallet list"
  feature_set :: "Feature list"

section \<open>Python primitives used by the serializers\<close>

text \<open>Truth value of an optional string and of an optional integer (\<^verbatim>\<open>if x\<close>).\<close>

definition truthy_str :: "string option \<Rightarrow> bool" where
  "truthy_str v = (case v of None \<Rightarrow> False | Some s \<Rightarrow> s \<noteq> [])"

definition truthy_int :: "int option \<Rightarrow> bool" where
  "truthy_int v = (case v of None \<Rightarrow> False | Some n \<Rightarrow> n \<noteq> 0)"

text \<open>\<^verbatim>\<open>str(n)\<close> for an integer: decimal digits, with a leading minus sign when negative.\<close>

definition digit_char :: "nat \<Rightarrow> char" where
  "digit_char d = ''0123456789'' ! d"

function str_nat :: "nat \<Rightarrow> string" where
  "str_nat n = (if n < 10 then [digit_char n] else str_nat (n div 10) @ [digit_char (n mod 10)])"
  by pat_completeness auto
termination
  by (relation "measure (\<lambda>n. n)") auto

declare str_nat.simps [simp del]

definition str_int :: "int \<Rightarrow> string" where
  "str_int i = (if i < 0 then CHR ''-'' # str_nat (nat (- i)) else str_nat (nat i))"

definition str_str :: "string \<Rightarrow> string" where
  "str_str s = s"

section \<open>The framework's field and serializer behaviour\<close>

text \<open>
  Looking an attribute up on an instance either finds a value or raises
  \<^verbatim>\<open>AttributeError\<close>. \<^verbatim>\<open>Field.get_attribute\<close> answers a failed lookup with the declared
  default when there is one and, the field being required, re-raises otherwise. The
  declared default is \<open>None\<close> when the field has none (\<^verbatim>\<open>empty\<close>), \<open>Some None\<close> for
  \<^verbatim>\<open>default=None\<close>.
\<close>

datatype 'a attribute = NoAttribute | Attribute 'a

definition Field_get_attribute :: "string \<Rightarrow> 'a option option \<Rightarrow> 'a option attribute \<Rightarrow> exn + 'a option" where
  "Field_get_attribute field_name default_value a =
     (case a of
        Attribute v \<Rightarrow> Inr v
      | NoAttribute \<Rightarrow>
          (case default_value of
             Some d \<Rightarrow> Inr d
           | None \<Rightarrow> Inl (AttributeError field_name)))"

text \<open>
  \<^verbatim>\<open>Serializer.to_representation\<close> stores \<^verbatim>\<open>None\<close> for an attribute that is \<^verbatim>\<open>None\<close> and the
  field's own \<^verbatim>\<open>to_representation\<close> of the attribute otherwise.
\<close>

definition field_value :: "('a \<Rightarrow> exn + pyval) \<Rightarrow> 'a option \<Rightarrow> exn + pyval" where
  "field_value to_repr attribute =
     (case attribute of None \<Rightarrow> Inr PyNone | Some v \<Rightarrow> to_repr v)"

definition Field :: "string \<Rightarrow> ('a \<Rightarrow> exn + pyval) \<Rightarrow> 'a option option \<Rightarrow> 'a option attribute \<Rightarrow> string \<times> (exn + pyval)" where
  "Field field_name to_repr default_value a =
     (field_name,
      case Field_get_attribute field_name default_value a of
        Inl e \<Rightarrow> Inl e
      | Inr attribute \<Rightarrow> field_value to_repr attribute)"

text \<open>A \<^verbatim>\<open>SerializerMethodField\<close> stores what its method returns for the instance.\<close>

definition SerializerMethodField :: "string \<Rightarrow> (exn + pyval) \<Rightarrow> string \<times> (exn + pyval)" where
  "SerializerMethodField field_name method_result = (field_name, method_result)"

text \<open>
  The \<^verbatim>\<open>to_representation\<close> of each field class, on a value of the attribute's type; it
  returns the primitive value or raises.
\<close>

definition ReadOnlyField :: "pyval \<Rightarrow> exn + pyval" where
  "ReadOnlyField v = Inr v"

definition CharField :: "('a \<Rightarrow> string) \<Rightarrow> 'a \<Rightarrow> exn + pyval" where
  "CharField str v = Inr (PyStr (str v))"

definition URLField :: "string \<Rightarrow> exn + pyval" where
  "URLField v = CharField str_str v"

definition IntegerField :: "int \<Rightarrow> exn + pyval" where
  "IntegerField v = Inr (PyInt v)"

definition BooleanField :: "bool \<Rightarrow> exn + pyval" where
  "BooleanField v = Inr (PyBool v)"

definition EthereumAddressField :: "string \<Rightarrow> exn + pyval" where
  "EthereumAddressField v = Inr (PyStr v)"

text \<open>
  A decimal field quantizes the value to \<^verbatim>\<open>decimal_places\<close> places in a context whose
  precision is \<^verbatim>\<open>max_digits\<close>, and writes the result in fixed-point notation
  (\<^verbatim>\<open>'{:f}'.format\<close>), decimals being coerced to strings.

  \<^verbatim>\<open>Decimal.adjusted\<close> is the exponent of the leading digit. \<^verbatim>\<open>Decimal._rescale\<close> brings a
  decimal to a given exponent, padding with zeros or rounding half to even (the rounding
  of the context). \<^verbatim>\<open>Decimal.quantize\<close> gives a zero the new exponent as it is; a non-zero
  value is an \<^verbatim>\<open>InvalidOperation\<close> when its digits down to the new exponent exceed the
  precision, before or after rounding. With the declared arguments the exponent limits of
  the context add no further case: a value beyond them already has too many digits.
\<close>

definition adjusted :: "nat \<Rightarrow> int \<Rightarrow> int" where
  "adjusted coefficient exponent = exponent + int (length (str_nat coefficient)) - 1"

definition round_half_even :: "nat \<Rightarrow> nat \<Rightarrow> nat" where
  "round_half_even coefficient dropped =
     (let q = coefficient div 10 ^ dropped; r = coefficient mod 10 ^ dropped
      in if 10 ^ dropped < 2 * r \<or> (2 * r = 10 ^ dropped \<and> odd q) then q + 1 else q)"

fun rescale :: "decimal \<Rightarrow> int \<Rightarrow> decimal" where
  "rescale (Decimal sign coefficient exponent) exp =
     (if coefficient = 0 then Decimal sign 0 exp
      else if exp \<le> exponent then Decimal sign (coefficient * 10 ^ nat (exponent - exp)) exp
      else Decimal sign (round_half_even coefficient (nat (exp - exponent))) exp)"

fun quantize :: "nat \<Rightarrow> int \<Rightarrow> decimal \<Rightarrow> exn + decimal" where
  "quantize prec exp (Decimal sign coefficient exponent) =
     (if coefficient = 0 then Inr (Decimal sign 0 exp)
      else if int prec < adjusted coefficient exponent - exp + 1 then Inl InvalidOperation
      else
        (case rescale (Decimal sign coefficient exponent) exp of
           Decimal ans_sign ans_coefficient ans_exponent \<Rightarrow>
             if prec < length (str_nat ans_coefficient) then Inl InvalidOperation
             else Inr (Decimal ans_sign ans_coefficient ans_exponent)))"

definition zfill :: "nat \<Rightarrow> string \<Rightarrow> string" where
  "zfill width s = replicate (width - length s) CHR ''0'' @ s"

fun format_f :: "decimal \<Rightarrow> string" where
  "format_f (Decimal sign coefficient exponent) =
     (if sign then ''-'' else []) @
     (if 0 \<le> exponent then str_nat (coefficient * 10 ^ nat exponent)
      else
        str_nat (coefficient div 10 ^ nat (- exponent)) @ ''.'' @
        zfill (nat (- exponent)) (str_nat (coefficient mod 10 ^ nat (- exponent))))"

definition DecimalField_quantize :: "nat \<Rightarrow> nat \<Rightarrow> decimal \<Rightarrow> exn + decimal" where
  "DecimalField_quantize max_digits decimal_places v = quantize max_digits (- int decimal_places) v"

definition DecimalField :: "nat \<Rightarrow> nat \<Rightarrow> decimal \<Rightarrow> exn + pyval" where
  "DecimalField max_digits decimal_places v =
     (case DecimalField_quantize max_digits decimal_places v of
        Inl e \<Rightarrow> Inl e
      | Inr quantized \<Rightarrow> Inr (PyStr (format_f quantized)))"

text \<open>
  An image field gives \<^verbatim>\<open>None\<close> for a handle without a file, and otherwise the file's URL
  (no request is in the serializer context, so the URL is not made absolute) or, without
  \<^verbatim>\<open>use_url\<close>, its name.
\<close>

definition ImageField :: "bool \<Rightarrow> ImageFieldFile \<Rightarrow> exn + pyval" where
  "ImageField use_url v =
     (case v of ImageFieldFile file_name file_url \<Rightarrow>
        if file_name = [] then Inr PyNone
        else if use_url then Inr (PyStr file_url)
        else Inr (PyStr file_name))"

text \<open>
  The fields are visited in declaration order; the first exception ends the run, otherwise
  the result is the dictionary of the field values.
\<close>

fun Serializer_to_representation :: "(string \<times> (exn + pyval)) list \<Rightarrow> exn + (string \<times> pyval) list" where
  "Serializer_to_representation [] = Inr []"
| "Serializer_to_representation ((field_name, r) # declared) =
     (case r of
        Inl e \<Rightarrow> Inl e
      | Inr v \<Rightarrow>
          (case Serializer_to_representation declared of
             Inl e \<Rightarrow> Inl e
           | Inr ret \<Rightarrow> Inr ((field_name, v) # ret)))"

definition Serializer_data :: "(string \<times> (exn + pyval)) list \<Rightarrow> exn + pyval" where
  "Serializer_data declared =
     (case Serializer_to_representation declared of Inl e \<Rightarrow> Inl e | Inr ret \<Rightarrow> Inr (PyDict ret))"

text \<open>A serializer built with \<^verbatim>\<open>many=True\<close> maps the child over the items, in order.\<close>

fun ListSerializer_to_representation :: "('i \<Rightarrow> exn + pyval) \<Rightarrow> 'i list \<Rightarrow> exn + pyval list" where
  "ListSerializer_to_representation child [] = Inr []"
| "ListSerializer_to_representation child (item # items) =
     (case child item of
        Inl e \<Rightarrow> Inl e
      | Inr v \<Rightarrow>
          (case ListSerializer_to_representation child items of
             Inl e \<Rightarrow> Inl e
           | Inr vs \<Rightarrow> Inr (v # vs)))"

definition ListSerializer_data :: "('i \<Rightarrow> exn + pyval) \<Rightarrow> 'i list \<Rightarrow> exn + pyval" where
  "ListSerializer_data child items =
     (case ListSerializer_to_representation child items of Inl e \<Rightarrow> Inl e | Inr vs \<Rightarrow> Inr (PyList vs))"

text \<open>\<^verbatim>\<open>order_by\<close> on a query set: the rows in ascending order of the named column.\<close>

definition order_by :: "('i \<Rightarrow> 'k::linorder) \<Rightarrow> 'i list \<Rightarrow> 'i list" where
  "order_by column rows = sort_key column rows"

section \<open>Gas price serializers\<close>

text \<open>
  \<^verbatim>\<open>type\<close> is a \<^verbatim>\<open>ReadOnlyField\<close> whose source is its own name; a gas price has no attribute
  of that name, so the lookup fails and the declared default is used.
\<close>

definition GasPriceOracleSerializer_data :: "GasPrice \<Rightarrow> exn + pyval" where
  "GasPriceOracleSerializer_data instance = Serializer_data
     [Field ''type'' ReadOnlyField (Some (Some (PyStr ''oracle''))) NoAttribute,
      Field ''uri'' URLField None (Attribute (oracle_uri instance)),
      Field ''gas_parameter'' (CharField str_str) None (Attribute (oracle_parameter instance)),
      Field ''gwei_factor'' (DecimalField 19 9) None (Attribute (Some (gwei_factor instance)))]"

definition GasPriceFixedSerializer_data :: "GasPrice \<Rightarrow> exn + pyval" where
  "GasPriceFixedSerializer_data instance = Serializer_data
     [Field ''type'' ReadOnlyField (Some (Some (PyStr ''fixed''))) NoAttribute,
      Field ''wei_value'' (CharField str_int) None (Attribute (fixed_wei_value instance))]"

definition GasPriceSerializer_to_representation :: "GasPrice \<Rightarrow> exn + pyval" where
  "GasPriceSerializer_to_representation instance =
     (if truthy_str (oracle_uri instance) \<and> fixed_wei_value instance = None then
        GasPriceOracleSerializer_data instance
      else if truthy_int (fixed_wei_value instance) \<and> oracle_uri instance = None then
        GasPriceFixedSerializer_data instance
      else
        Inl (APIException
          (''The gas price oracle or a fixed gas price was not provided for chain '' @ chain instance)))"

section \<open>Chain serializers\<close>

definition ThemeSerializer_data :: "Chain \<Rightarrow> exn + pyval" where
  "ThemeSerializer_data obj = Serializer_data
     [Field ''text_color'' (CharField str_str) None (Attribute (Some (theme_text_color obj))),
      Field ''background_color'' (CharField str_str) None (Attribute (Some (theme_background_color obj)))]"

definition CurrencySerializer_data :: "Chain \<Rightarrow> exn + pyval" where
  "CurrencySerializer_data obj = Serializer_data
     [Field ''name'' (CharField str_str) None (Attribute (Some (currency_name obj))),
      Field ''symbol'' (CharField str_str) None (Attribute (Some (currency_symbol obj))),
      Field ''decimals'' IntegerField None (Attribute (Some (currency_decimals obj))),
      Field ''logo_uri'' (ImageField True) None (Attribute (Some (currency_logo_uri obj)))]"

definition RpcUriSerializer_data :: "Chain \<Rightarrow> exn + pyval" where
  "RpcUriSerializer_data obj = Serializer_data
     [SerializerMethodField ''authentication'' (Inr (PyStr (rpc_authentication obj))),
      SerializerMethodField ''value'' (Inr (PyStr (rpc_uri obj)))]"

definition SafeAppsRpcUriSerializer_data :: "Chain \<Rightarrow> exn + pyval" where
  "SafeAppsRpcUriSerializer_data obj = Serializer_data
     [SerializerMethodField ''authentication'' (Inr (PyStr (safe_apps_rpc_authentication obj))),
      SerializerMethodField ''value'' (Inr (PyStr (safe_apps_rpc_uri obj)))]"

definition BlockExplorerUriTemplateSerializer_data :: "Chain \<Rightarrow> exn + pyval" where
  "BlockExplorerUriTemplateSerializer_data obj = Serializer_data
     [Field ''address'' URLField None (Attribute (Some (block_explorer_uri_address_template obj))),
      Field ''tx_hash'' URLField None (Attribute (Some (block_explorer_uri_tx_hash_template obj))),
      Field ''api'' URLField None (Attribute (Some (block_explorer_uri_api_template obj)))]"

definition FeatureSerializer_to_representation :: "Feature \<Rightarrow> exn + pyval" where
  "FeatureSerializer_to_representation instance = Inr (PyStr (Feature.key instance))"

definition WalletSerializer_to_representation :: "Wallet \<Rightarrow> exn + pyval" where
  "WalletSerializer_to_representation instance = Inr (PyStr (Wallet.key instance))"

definition get_native_currency :: "Chain \<Rightarrow> exn + pyval" where
  "get_native_currency obj = CurrencySerializer_data obj"

definition get_theme :: "Chain \<Rightarrow> exn + pyval" where
  "get_theme obj = ThemeSerializer_data obj"

definition get_safe_apps_rpc_uri :: "Chain \<Rightarrow> exn + pyval" where
  "get_safe_apps_rpc_uri obj = SafeAppsRpcUriSerializer_data obj"

definition get_rpc_uri :: "Chain \<Rightarrow> exn + pyval" where
  "get_rpc_uri obj = RpcUriSerializer_data obj"

definition get_block_explorer_uri_template :: "Chain \<Rightarrow> exn + pyval" where
  "get_block_explorer_uri_template obj = BlockExplorerUriTemplateSerializer_data obj"

definition get_gas_price :: "Chain \<Rightarrow> exn + pyval" where
  "get_gas_price instance =
     (let ranked_gas_prices = order_by rank (gasprice_set instance)
      in ListSerializer_data GasPriceSerializer_to_representation ranked_gas_prices)"

definition get_disabled_wallets :: "Chain \<Rightarrow> exn + pyval" where
  "get_disabled_wallets instance =
     (let disabled = order_by Wallet.key (disabled_wallets instance)
      in ListSerializer_data WalletSerializer_to_representation disabled)"

definition get_features :: "Chain \<Rightarrow> exn + pyval" where
  "get_features instance =
     (let enabled_features = order_by Feature.key (feature_set instance)
      in ListSerializer_data FeatureSerializer_to_representation enabled_features)"

text \<open>
  The two transaction service fields as the class declares them: both are URL fields, and
  only \<^verbatim>\<open>transaction_service\<close> has a default, which is \<^verbatim>\<open>None\<close>.
\<close>

definition transaction_service :: "string option attribute \<Rightarrow> string \<times> (exn + pyval)" where
  "transaction_service = Field ''transaction_service'' URLField (Some None)"

definition vpc_transaction_service :: "string option attribute \<Rightarrow> string \<times> (exn + pyval)" where
  "vpc_transaction_service = Field ''vpc_transaction_service'' URLField None"

text \<open>
  The fields in the order of \<^verbatim>\<open>Meta.fields\<close>. \<^verbatim>\<open>description\<close>, \<^verbatim>\<open>l2\<close> and
  \<^verbatim>\<open>recommended_master_copy_version\<close> are not declared on the class; the model serializer
  builds them from the model's columns, as character, boolean and character fields.
\<close>

definition ChainSerializer_data :: "Chain \<Rightarrow> exn + pyval" where
  "ChainSerializer_data instance = Serializer_data
     [Field ''chain_id'' (CharField str_int) None (Attribute (Some (id_attr instance))),
      Field ''chain_name'' (CharField str_str) None (Attribute (Some (name instance))),
      Field ''short_name'' (CharField str_str) None (Attribute (Some (short_name instance))),
      Field ''description'' (CharField str_str) None (Attribute (Some (description instance))),
      Field ''l2'' BooleanField None (Attribute (Some (l2 instance))),
      SerializerMethodField ''rpc_uri'' (get_rpc_uri instance),
      SerializerMethodField ''safe_apps_rpc_uri'' (get_safe_apps_rpc_uri instance),
      SerializerMethodField ''block_explorer_uri_template'' (get_block_explorer_uri_template instance),
      SerializerMethodField ''native_currency'' (get_native_currency instance),
      transaction_service (Attribute (transaction_service_uri instance)),
      vpc_transaction_service (Attribute (Some (vpc_transaction_service_uri instance))),
      SerializerMethodField ''theme'' (get_theme instance),
      SerializerMethodField ''gas_price'' (get_gas_price instance),
      Field ''ens_registry_address'' EthereumAddressField None (Attribute (ens_registry_address instance)),
      Field ''recommended_master_copy_version'' (CharField str_str) None
        (Attribute (Some (recommended_master_copy_version instance))),
      SerializerMethodField ''disabled_wallets'' (get_disabled_wallets instance),
      SerializerMethodField ''features'' (get_features instance)]"

section \<open>Reading a digit string back\<close>

definition digits_value :: "string \<Rightarrow> nat" where
  "digits_value s = foldl (\<lambda>a ch. 10 * a + (of_char ch - 48)) 0 s"

section \<open>Sample records\<close>

definition sample_chain :: Chain where
  "sample_chain =
     \<lparr>id_attr = 137,
      name = ''Polygon'',
      short_name = ''matic'',
      description = ''L2 chain'',
      l2 = True,
      rpc_authentication = ''API_KEY_PATH'',
      rpc_uri = ''https://rpc.example/v3/'',
      safe_apps_rpc_authentication = ''NO_AUTHENTICATION'',
      safe_apps_rpc_uri = ''https://apps-rpc.example/'',
      block_explorer_uri_address_template = ''https://scan.example/address/{{address}}'',
      block_explorer_uri_tx_hash_template = ''https://scan.example/tx/{{txHash}}'',
      block_explorer_uri_api_template = ''https://scan.example/api'',
      currency_name = ''Matic'',
      currency_symbol = ''MATIC'',
      currency_decimals = 18,
      currency_logo_uri = ImageFieldFile ''chains/137/logo.png'' ''/media/chains/137/logo.png'',
      transaction_service_uri = None,
      vpc_transaction_service_uri = ''http://tx.internal'',
      theme_text_color = ''#ffffff'',
      theme_background_color = ''#8248e5'',
      ens_registry_address = None,
      recommended_master_copy_version = ''1.3.0'',
      gasprice_set =
        [\<lparr>chain = ''Polygon | chain_id=137'', oracle_uri = Some ''https://gas.example/api'',
          oracle_parameter = Some ''fast'', gwei_factor = Decimal False 10 0, fixed_wei_value = None,
          rank = 2\<rparr>,
         \<lparr>chain = ''Polygon | chain_id=137'', oracle_uri = None,
          oracle_parameter = None, gwei_factor = Decimal False 1 0, fixed_wei_value = Some 1500,
          rank = 1\<rparr>],
      disabled_wallets = [\<lparr>Wallet.key = ''trezor''\<rparr>, \<lparr>Wallet.key = ''ledger''\<rparr>],
      feature_set = [\<lparr>Feature.key = ''SAFE_APPS''\<rparr>, \<lparr>Feature.key = ''ERC721''\<rparr>]\<rparr>"

section \<open>Basic facts about the framework layer\<close>

lemmas field_defs = Serializer_data_def Field_def Field_get_attribute_def SerializerMethodField_def
  field_value_def ReadOnlyField_def CharField_def URLField_def str_str_def
  IntegerField_def BooleanField_def EthereumAddressField_def

lemmas decimal_defs = DecimalField_def DecimalField_quantize_def adjusted_def round_half_even_def
  zfill_def str_nat.simps digit_char_def Let_def

lemma replicate_numeral_unfold: "replicate (numeral k) c = c # replicate (numeral k - 1) c"
  by (simp add: numeral_eq_Suc)

lemma of_char_digit_char: "d < 10 \<Longrightarrow> of_char (digit_char d) = 48 + d"
proof -
  assume "d < 10"
  then have "d \<in> {0, 1, 2, 3, 4, 5, 6, 7, 8, 9}"
    by auto
  then show ?thesis
    by (auto simp add: digit_char_def)
qed

lemma digits_value_str_nat: "digits_value (str_nat n) = n"
proof (induction n rule: str_nat.induct)
  case (1 n)
  show ?case
  proof (cases "n < 10")
    case True
    then show ?thesis
      by (simp add: str_nat.simps [of n] digits_value_def of_char_digit_char)
  next
    case False
    with 1 have "digits_value (str_nat (n div 10)) = n div 10"
      by simp
    with False show ?thesis
      by (simp add: str_nat.simps [of n] digits_value_def of_char_digit_char)
  qed
qed

lemma digits_value_str_int: "0 \<le> i \<Longrightarrow> digits_value (str_int i) = nat i"
  by (simp add: str_int_def digits_value_str_nat)

lemma ListSerializer_total:
  "ListSerializer_to_representation (\<lambda>x. Inr (f x)) xs = Inr (map f xs)"
  by (induction xs) simp_all

lemma ListSerializer_Inr:
  "ListSerializer_to_representation child xs = Inr vs \<Longrightarrow> map child xs = map Inr vs"
proof (induction xs arbitrary: vs)
  case Nil
  then show ?case by simp
next
  case (Cons x xs)
  then show ?case by (auto split: sum.splits)
qed

lemma ListSerializer_all_Inr:
  "\<forall>x\<in>set xs. \<exists>v. child x = Inr v \<Longrightarrow>
   \<exists>vs. ListSerializer_to_representation child xs = Inr vs"
proof (induction xs)
  case Nil
  then show ?case by simp
next
  case (Cons x xs)
  then obtain v vs where "child x = Inr v" "ListSerializer_to_representation child xs = Inr vs"
    by auto
  then show ?case by simp
qed

section \<open>The decimal field\<close>

text \<open>The only exception of the quantization is \<^verbatim>\<open>InvalidOperation\<close>.\<close>

lemma DecimalField_quantize_Inl:
  "DecimalField_quantize max_digits decimal_places v = Inl e \<Longrightarrow> e = InvalidOperation"
  by (cases v) (auto simp add: DecimalField_quantize_def split: if_splits decimal.splits)

text \<open>A quantized value has the sign of the value and the exponent asked for.\<close>

lemma DecimalField_quantize_Inr:
  "DecimalField_quantize max_digits decimal_places (Decimal sign coefficient exponent) = Inr q \<Longrightarrow>
   \<exists>c. q = Decimal sign c (- int decimal_places) \<and> (coefficient = 0 \<longrightarrow> c = 0)"
  by (auto simp add: DecimalField_quantize_def split: if_splits decimal.splits)

text \<open>
  The number of digits of a coefficient bounds it by a power of ten. So a non-zero decimal
  that has no more than nine decimal places and stays below ten to the tenth is quantized
  without rounding and without exception.
\<close>

lemma length_str_nat:
  "length (str_nat n) = (if n < 10 then 1 else Suc (length (str_nat (n div 10))))"
  by (subst str_nat.simps) simp

lemma str_nat_nonempty: "str_nat n \<noteq> []"
  by (subst str_nat.simps) simp

lemma length_str_nat_le: "0 < k \<Longrightarrow> (length (str_nat n) \<le> k) = (n < 10 ^ k)"
proof (induction n arbitrary: k rule: str_nat.induct)
  case (1 n)
  show ?case
  proof (cases "n < 10")
    case True
    have "(10::nat) ^ 1 \<le> 10 ^ k"
      using 1(2) by (intro power_increasing) auto
    with True show ?thesis
      using 1(2) by (simp add: length_str_nat [of n])
  next
    case False
    obtain j where k: "k = Suc j"
      using 1(2) by (cases k) auto
    show ?thesis
    proof (cases "j = 0")
      case True
      with False k show ?thesis
        by (simp add: length_str_nat [of n] str_nat_nonempty)
    next
      case jpos: False
      with 1(1) [OF False, of j]
      have "(length (str_nat (n div 10)) \<le> j) = (n div 10 < 10 ^ j)"
        by simp
      moreover have "(n div 10 < 10 ^ j) = (n < 10 ^ Suc j)"
        by (simp add: div_less_iff_less_mult mult.commute)
      ultimately show ?thesis
        using False k by (simp add: length_str_nat [of n])
    qed
  qed
qed

lemma DecimalField_quantize_fits:
  assumes "coefficient \<noteq> 0" and "- 9 \<le> exponent"
    and "coefficient * 10 ^ nat (exponent + 9) < 10 ^ 19"
  shows "DecimalField_quantize 19 9 (Decimal sign coefficient exponent) =
           Inr (Decimal sign (coefficient * 10 ^ nat (exponent + 9)) (- 9))"
proof -
  have small: "exponent \<le> 9"
  proof (rule ccontr)
    assume "\<not> exponent \<le> 9"
    then have "19 \<le> nat (exponent + 9)" by simp
    then have "(10::nat) ^ 19 \<le> 10 ^ nat (exponent + 9)"
      by (intro power_increasing) auto
    moreover have "(10::nat) ^ nat (exponent + 9) \<le> coefficient * 10 ^ nat (exponent + 9)"
      using assms(1) by simp
    ultimately have "(10::nat) ^ 19 \<le> coefficient * 10 ^ nat (exponent + 9)"
      by (rule order_trans)
    with assms(3) show False
      by (meson leD)
  qed
  define k where "k = nat (10 - exponent)"
  have kpos: "0 < k" and ksum: "k + nat (exponent + 9) = 19"
    using small assms(2) by (simp_all add: k_def)
  have "(coefficient < 10 ^ k) = (coefficient * 10 ^ nat (exponent + 9) < 10 ^ k * 10 ^ nat (exponent + 9))"
    by simp
  also have "\<dots> = (coefficient * 10 ^ nat (exponent + 9) < 10 ^ 19)"
    by (simp add: power_add [symmetric] ksum)
  finally have "coefficient < 10 ^ k"
    using assms(3) by simp
  then have "length (str_nat coefficient) \<le> k"
    using length_str_nat_le [OF kpos] by simp
  then have a: "\<not> 19 < adjusted coefficient exponent - (- 9) + 1"
    using small assms(2) by (simp add: adjusted_def k_def)
  have b: "\<not> 19 < length (str_nat (coefficient * 10 ^ nat (exponent + 9)))"
    using length_str_nat_le [of 19 "coefficient * 10 ^ nat (exponent + 9)"] assms(3) by simp
  have e: "nat (exponent - (- 9)) = nat (exponent + 9)" by simp
  show ?thesis
    using a b assms(1,2) by (simp add: DecimalField_quantize_def e)
qed

lemma DecimalField_ten: "DecimalField 19 9 (Decimal False 10 0) = Inr (PyStr ''10.000000000'')"
  by (simp add: decimal_defs replicate_numeral_unfold)

lemma DecimalField_rounds:
  "DecimalField 19 9 (Decimal False 1234567891 (- 10)) = Inr (PyStr ''0.123456789'')"
  by (simp add: decimal_defs replicate_numeral_unfold)

lemma DecimalField_half_even:
  "DecimalField 19 9 (Decimal False 25 (- 10)) = Inr (PyStr ''0.000000002'')"
  by (simp add: decimal_defs replicate_numeral_unfold)

lemma DecimalField_too_many_digits:
  "DecimalField 19 9 (Decimal False 12345678901 0) = Inl InvalidOperation"
  by (simp add: decimal_defs)

section \<open>Gas price representation\<close>

lemma GasPriceOracleSerializer_data_eq:
  "GasPriceOracleSerializer_data g =
     (case DecimalField_quantize 19 9 (gwei_factor g) of
        Inl e \<Rightarrow> Inl e
      | Inr q \<Rightarrow> Inr (PyDict
          [(''type'', PyStr ''oracle''),
           (''uri'', case oracle_uri g of None \<Rightarrow> PyNone | Some u \<Rightarrow> PyStr u),
           (''gas_parameter'', case oracle_parameter g of None \<Rightarrow> PyNone | Some p \<Rightarrow> PyStr p),
           (''gwei_factor'', PyStr (format_f q))]))"
  by (simp add: GasPriceOracleSerializer_data_def field_defs DecimalField_def
      split: option.splits sum.splits)

lemma GasPriceFixedSerializer_data_eq:
  "GasPriceFixedSerializer_data g = Inr (PyDict
     [(''type'', PyStr ''fixed''),
      (''wei_value'', case fixed_wei_value g of None \<Rightarrow> PyNone | Some w \<Rightarrow> PyStr (str_int w))])"
  by (simp add: GasPriceFixedSerializer_data_def field_defs split: option.splits)

text \<open>
  C1, as the code has it. A gas price whose \<^verbatim>\<open>oracle_uri\<close> is a non-empty string, whose
  \<^verbatim>\<open>fixed_wei_value\<close> is \<^verbatim>\<open>None\<close> and whose \<^verbatim>\<open>gwei_factor\<close> can be quantized to nine decimal
  places within nineteen digits is represented by an object of type \<^verbatim>\<open>"oracle"\<close> with the
  fields \<^verbatim>\<open>uri\<close>, \<^verbatim>\<open>gas_parameter\<close> and \<^verbatim>\<open>gwei_factor\<close>, which hold the record's \<^verbatim>\<open>oracle_uri\<close>,
  its \<^verbatim>\<open>oracle_parameter\<close> (\<^verbatim>\<open>None\<close> when the record has none) and its \<^verbatim>\<open>gwei_factor\<close>
  quantized to nine decimal places and written as a string.
\<close>

theorem oracle_representation:
  assumes "oracle_uri g = Some u" and "u \<noteq> []" and "fixed_wei_value g = None"
    and "DecimalField_quantize 19 9 (gwei_factor g) = Inr q"
  shows "GasPriceSerializer_to_representation g = Inr (PyDict
     [(''type'', PyStr ''oracle''),
      (''uri'', PyStr u),
      (''gas_parameter'', case oracle_parameter g of None \<Rightarrow> PyNone | Some p \<Rightarrow> PyStr p),
      (''gwei_factor'', PyStr (format_f q))])"
  using assms
  by (simp add: GasPriceSerializer_to_representation_def truthy_str_def
      GasPriceOracleSerializer_data_eq)

theorem oracle_representation_witness:
  "DecimalField_quantize 19 9 (Decimal False 10 0) = Inr (Decimal False 10000000000 (- 9))
   \<and> GasPriceSerializer_to_representation
     \<lparr>chain = ''Mainnet | chain_id=1'', oracle_uri = Some ''https://gas.example/api'',
      oracle_parameter = Some ''fast'', gwei_factor = Decimal False 10 0, fixed_wei_value = None,
      rank = 1\<rparr>
   = Inr (PyDict
     [(''type'', PyStr ''oracle''),
      (''uri'', PyStr ''https://gas.example/api''),
      (''gas_parameter'', PyStr ''fast''),
      (''gwei_factor'', PyStr ''10.000000000'')])"
proof -
  have q: "DecimalField_quantize 19 9 (Decimal False 10 0) = Inr (Decimal False 10000000000 (- 9))"
    by (simp add: decimal_defs)
  have f: "format_f (Decimal False 10000000000 (- 9)) = ''10.000000000''"
    by (simp add: decimal_defs replicate_numeral_unfold)
  show ?thesis
    using oracle_representation
      [of "\<lparr>chain = ''Mainnet | chain_id=1'', oracle_uri = Some ''https://gas.example/api'',
        oracle_parameter = Some ''fast'', gwei_factor = Decimal False 10 0,
        fixed_wei_value = None, rank = 1\<rparr>"
        "''https://gas.example/api''" "Decimal False 10000000000 (- 9)"]
      q f
    by simp
qed

text \<open>
  C1, as stated, fails on two records that have only \<^verbatim>\<open>oracle_uri\<close> set. The first has a
  \<^verbatim>\<open>gwei_factor\<close> of 12345678901, which needs twenty digits at nine decimal places: the
  decimal field raises \<^verbatim>\<open>InvalidOperation\<close>. The second has the empty string as its
  \<^verbatim>\<open>oracle_uri\<close>: the first guard tests the truth value of \<^verbatim>\<open>oracle_uri\<close>, and the outcome is
  the \<^verbatim>\<open>APIException\<close>.
\<close>

theorem oracle_representation_counterexample:
  "GasPriceSerializer_to_representation
     \<lparr>chain = ''Mainnet | chain_id=1'', oracle_uri = Some ''https://gas.example/api'',
      oracle_parameter = Some ''fast'', gwei_factor = Decimal False 12345678901 0,
      fixed_wei_value = None, rank = 1\<rparr>
   = Inl InvalidOperation
   \<and> GasPriceSerializer_to_representation
     \<lparr>chain = ''Mainnet | chain_id=1'', oracle_uri = Some [],
      oracle_parameter = Some ''fast'', gwei_factor = Decimal False 10 0,
      fixed_wei_value = None, rank = 1\<rparr>
   = Inl (APIException
     ''The gas price oracle or a fixed gas price was not provided for chain Mainnet | chain_id=1'')"
  by (simp add: GasPriceSerializer_to_representation_def truthy_str_def truthy_int_def
      GasPriceOracleSerializer_data_eq decimal_defs)

text \<open>
  C2. The record below has only \<^verbatim>\<open>fixed_wei_value\<close> set, to 0, and no \<^verbatim>\<open>oracle_uri\<close>. Its
  representation is the \<^verbatim>\<open>APIException\<close>, because the second guard tests the truth value of
  \<^verbatim>\<open>fixed_wei_value\<close>, although the fixed serializer represents the record as an object of
  type \<^verbatim>\<open>"fixed"\<close> with the \<^verbatim>\<open>wei_value\<close> \<^verbatim>\<open>"0"\<close>.
\<close>

theorem fixed_zero_raises:
  "fixed_wei_value
     \<lparr>chain = ''Mainnet | chain_id=1'', oracle_uri = None,
      oracle_parameter = None, gwei_factor = Decimal False 1 0, fixed_wei_value = Some 0,
      rank = 2\<rparr> = Some 0
   \<and> oracle_uri
     \<lparr>chain = ''Mainnet | chain_id=1'', oracle_uri = None,
      oracle_parameter = None, gwei_factor = Decimal False 1 0, fixed_wei_value = Some 0,
      rank = 2\<rparr> = None
   \<and> GasPriceSerializer_to_representation
     \<lparr>chain = ''Mainnet | chain_id=1'', oracle_uri = None,
      oracle_parameter = None, gwei_factor = Decimal False 1 0, fixed_wei_value = Some 0,
      rank = 2\<rparr>
   = Inl (APIException
     ''The gas price oracle or a fixed gas price was not provided for chain Mainnet | chain_id=1'')
   \<and> GasPriceFixedSerializer_data
     \<lparr>chain = ''Mainnet | chain_id=1'', oracle_uri = None,
      oracle_parameter = None, gwei_factor = Decimal False 1 0, fixed_wei_value = Some 0,
      rank = 2\<rparr>
   = Inr (PyDict [(''type'', PyStr ''fixed''), (''wei_value'', PyStr ''0'')])"
  by (simp add: GasPriceSerializer_to_representation_def truthy_str_def truthy_int_def
      GasPriceFixedSerializer_data_eq str_int_def str_nat.simps digit_char_def)

text \<open>
  For every other value of \<^verbatim>\<open>fixed_wei_value\<close>, a record without \<^verbatim>\<open>oracle_uri\<close> is represented
  by the fixed serializer; and a \<^verbatim>\<open>fixed_wei_value\<close> of 0 keeps a record with an \<^verbatim>\<open>oracle_uri\<close>
  from the oracle representation, the first guard asking for \<^verbatim>\<open>None\<close>.
\<close>

lemma fixed_representation_nonzero:
  assumes "fixed_wei_value g = Some w" and "w \<noteq> 0" and "oracle_uri g = None"
  shows "GasPriceSerializer_to_representation g = Inr (PyDict
     [(''type'', PyStr ''fixed''),
      (''wei_value'', PyStr (str_int w))])"
  using assms
  by (simp add: GasPriceSerializer_to_representation_def truthy_str_def truthy_int_def
      GasPriceFixedSerializer_data_eq)

lemma fixed_zero_blocks_oracle:
  assumes "fixed_wei_value g = Some 0"
  shows "GasPriceSerializer_to_representation g = Inl (APIException
     (''The gas price oracle or a fixed gas price was not provided for chain '' @ chain g))"
  using assms
  by (simp add: GasPriceSerializer_to_representation_def truthy_int_def)

text \<open>
  C3. When both \<^verbatim>\<open>oracle_uri\<close> and \<^verbatim>\<open>fixed_wei_value\<close> are set (neither is \<^verbatim>\<open>None\<close>), or when
  neither holds a usable value (each is \<^verbatim>\<open>None\<close>, empty or zero), no representation is
  returned: an \<^verbatim>\<open>APIException\<close> is raised whose message ends with the record's chain.
\<close>

theorem both_or_neither_raises:
  assumes "(oracle_uri g \<noteq> None \<and> fixed_wei_value g \<noteq> None)
         \<or> (\<not> truthy_str (oracle_uri g) \<and> \<not> truthy_int (fixed_wei_value g))"
  shows "GasPriceSerializer_to_representation g = Inl (APIException
     (''The gas price oracle or a fixed gas price was not provided for chain '' @ chain g))"
  using assms
  by (auto simp add: GasPriceSerializer_to_representation_def truthy_str_def truthy_int_def)

theorem both_or_neither_raises_witness:
  "GasPriceSerializer_to_representation
     \<lparr>chain = ''Mainnet | chain_id=1'', oracle_uri = Some ''https://gas.example/api'',
      oracle_parameter = Some ''fast'', gwei_factor = Decimal False 10 0,
      fixed_wei_value = Some 1500, rank = 1\<rparr>
   = Inl (APIException
     ''The gas price oracle or a fixed gas price was not provided for chain Mainnet | chain_id=1'')
   \<and> GasPriceSerializer_to_representation
     \<lparr>chain = ''Mainnet | chain_id=1'', oracle_uri = None,
      oracle_parameter = None, gwei_factor = Decimal False 1 0, fixed_wei_value = None,
      rank = 1\<rparr>
   = Inl (APIException
     ''The gas price oracle or a fixed gas price was not provided for chain Mainnet | chain_id=1'')"
  using both_or_neither_raises
    [of "\<lparr>chain = ''Mainnet | chain_id=1'', oracle_uri = Some ''https://gas.example/api'',
      oracle_parameter = Some ''fast'', gwei_factor = Decimal False 10 0,
      fixed_wei_value = Some 1500, rank = 1\<rparr>"]
    both_or_neither_raises
    [of "\<lparr>chain = ''Mainnet | chain_id=1'', oracle_uri = None,
      oracle_parameter = None, gwei_factor = Decimal False 1 0, fixed_wei_value = None,
      rank = 1\<rparr>"]
  by (simp add: truthy_str_def truthy_int_def)

text \<open>
  C8, as the code has it. The representation of a gas price has exactly one of four
  outcomes. Under the first guard it is an object tagged \<^verbatim>\<open>"oracle"\<close> when the \<^verbatim>\<open>gwei_factor\<close>
  can be quantized to nine decimal places within nineteen digits, and the
  \<^verbatim>\<open>InvalidOperation\<close> of the decimal field when it cannot; under the second guard it is an
  object tagged \<^verbatim>\<open>"fixed"\<close>; when neither guard holds it is the \<^verbatim>\<open>APIException\<close>. The two
  guards never hold together, so the three guard conditions are exhaustive and exclude one
  another, and there is no further result.
\<close>

theorem four_outcomes:
  "\<not> ((truthy_str (oracle_uri g) \<and> fixed_wei_value g = None)
      \<and> (truthy_int (fixed_wei_value g) \<and> oracle_uri g = None))
   \<and> ((truthy_str (oracle_uri g) \<and> fixed_wei_value g = None
         \<and> (\<exists>q. DecimalField_quantize 19 9 (gwei_factor g) = Inr q)) =
        (\<exists>d. GasPriceSerializer_to_representation g = Inr (PyDict d)
           \<and> map_of d ''type'' = Some (PyStr ''oracle'')))
   \<and> ((truthy_str (oracle_uri g) \<and> fixed_wei_value g = None
         \<and> (\<exists>e. DecimalField_quantize 19 9 (gwei_factor g) = Inl e)) =
        (GasPriceSerializer_to_representation g = Inl InvalidOperation))
   \<and> ((truthy_int (fixed_wei_value g) \<and> oracle_uri g = None) =
        (\<exists>d. GasPriceSerializer_to_representation g = Inr (PyDict d)
           \<and> map_of d ''type'' = Some (PyStr ''fixed'')))
   \<and> ((\<not> (truthy_str (oracle_uri g) \<and> fixed_wei_value g = None)
        \<and> \<not> (truthy_int (fixed_wei_value g) \<and> oracle_uri g = None)) =
        (\<exists>m. GasPriceSerializer_to_representation g = Inl (APIException m)))
   \<and> ((\<exists>d t. GasPriceSerializer_to_representation g = Inr (PyDict d)
           \<and> map_of d ''type'' = Some (PyStr t) \<and> (t = ''oracle'' \<or> t = ''fixed''))
      \<or> (\<exists>m. GasPriceSerializer_to_representation g = Inl (APIException m))
      \<or> GasPriceSerializer_to_representation g = Inl InvalidOperation)"
proof -
  consider (ok) q where "DecimalField_quantize 19 9 (gwei_factor g) = Inr q"
    | (bad) "DecimalField_quantize 19 9 (gwei_factor g) = Inl InvalidOperation"
    using DecimalField_quantize_Inl [of 19 9 "gwei_factor g"]
    by (cases "DecimalField_quantize 19 9 (gwei_factor g)") auto
  then show ?thesis
  proof cases
    case ok
    then show ?thesis
      by (auto simp add: GasPriceSerializer_to_representation_def truthy_str_def truthy_int_def
          GasPriceFixedSerializer_data_eq GasPriceOracleSerializer_data_eq split: option.splits)
  next
    case bad
    then show ?thesis
      by (auto simp add: GasPriceSerializer_to_representation_def truthy_str_def truthy_int_def
          GasPriceFixedSerializer_data_eq GasPriceOracleSerializer_data_eq split: option.splits)
  qed
qed

theorem four_outcomes_witness:
  "GasPriceSerializer_to_representation
     \<lparr>chain = ''Mainnet | chain_id=1'', oracle_uri = Some ''https://gas.example/api'',
      oracle_parameter = Some ''fast'', gwei_factor = Decimal False 10 0, fixed_wei_value = None,
      rank = 1\<rparr> \<noteq> Inl InvalidOperation
   \<and> (\<exists>d. GasPriceSerializer_to_representation
     \<lparr>chain = ''Mainnet | chain_id=1'', oracle_uri = Some ''https://gas.example/api'',
      oracle_parameter = Some ''fast'', gwei_factor = Decimal False 10 0, fixed_wei_value = None,
      rank = 1\<rparr> = Inr (PyDict d) \<and> map_of d ''type'' = Some (PyStr ''oracle''))"
proof -
  have q: "DecimalField_quantize 19 9 (Decimal False 10 0) = Inr (Decimal False 10000000000 (- 9))"
    by (simp add: decimal_defs)
  show ?thesis
    using four_outcomes
      [of "\<lparr>chain = ''Mainnet | chain_id=1'', oracle_uri = Some ''https://gas.example/api'',
        oracle_parameter = Some ''fast'', gwei_factor = Decimal False 10 0,
        fixed_wei_value = None, rank = 1\<rparr>"]
      q
    by (simp add: truthy_str_def)
qed

text \<open>
  C8, as stated, fails on the record below: the first guard holds, the \<^verbatim>\<open>gwei_factor\<close> is ten
  to the tenth and needs twenty digits at nine decimal places, and the outcome is
  \<^verbatim>\<open>InvalidOperation\<close>, which is none of the three outcomes of the claim.
\<close>

theorem three_outcomes_counterexample:
  "GasPriceSerializer_to_representation
     \<lparr>chain = ''Mainnet | chain_id=1'', oracle_uri = Some ''https://gas.example/api'',
      oracle_parameter = Some ''fast'', gwei_factor = Decimal False 1 10,
      fixed_wei_value = None, rank = 1\<rparr>
   = Inl InvalidOperation"
  by (simp add: GasPriceSerializer_to_representation_def truthy_str_def
      GasPriceOracleSerializer_data_eq decimal_defs)

section \<open>Chain representation\<close>

lemma get_disabled_wallets_eq:
  "get_disabled_wallets c = Inr (PyList
     (map (\<lambda>w. PyStr (Wallet.key w)) (order_by Wallet.key (disabled_wallets c))))"
  unfolding get_disabled_wallets_def ListSerializer_data_def WalletSerializer_to_representation_def
  by (simp add: ListSerializer_total)

lemma get_features_eq:
  "get_features c = Inr (PyList
     (map (\<lambda>f. PyStr (Feature.key f)) (order_by Feature.key (feature_set c))))"
  unfolding get_features_def ListSerializer_data_def FeatureSerializer_to_representation_def
  by (simp add: ListSerializer_total)

lemma ChainSerializer_data_eq:
  "ChainSerializer_data c =
     (case get_gas_price c of
        Inl e \<Rightarrow> Inl e
      | Inr gas_price \<Rightarrow> Inr (PyDict
     [(''chain_id'', PyStr (str_int (id_attr c))),
      (''chain_name'', PyStr (name c)),
      (''short_name'', PyStr (short_name c)),
      (''description'', PyStr (description c)),
      (''l2'', PyBool (l2 c)),
      (''rpc_uri'', PyDict
         [(''authentication'', PyStr (rpc_authentication c)), (''value'', PyStr (rpc_uri c))]),
      (''safe_apps_rpc_uri'', PyDict
         [(''authentication'', PyStr (safe_apps_rpc_authentication c)),
          (''value'', PyStr (safe_apps_rpc_uri c))]),
      (''block_explorer_uri_template'', PyDict
         [(''address'', PyStr (block_explorer_uri_address_template c)),
          (''tx_hash'', PyStr (block_explorer_uri_tx_hash_template c)),
          (''api'', PyStr (block_explorer_uri_api_template c))]),
      (''native_currency'', PyDict
         [(''name'', PyStr (currency_name c)),
          (''symbol'', PyStr (currency_symbol c)),
          (''decimals'', PyInt (currency_decimals c)),
          (''logo_uri'',
             case currency_logo_uri c of
               ImageFieldFile file_name file_url \<Rightarrow>
                 if file_name = [] then PyNone else PyStr file_url)]),
      (''transaction_service'',
         case transaction_service_uri c of None \<Rightarrow> PyNone | Some u \<Rightarrow> PyStr u),
      (''vpc_transaction_service'', PyStr (vpc_transaction_service_uri c)),
      (''theme'', PyDict
         [(''text_color'', PyStr (theme_text_color c)),
          (''background_color'', PyStr (theme_background_color c))]),
      (''gas_price'', gas_price),
      (''ens_registry_address'',
         case ens_registry_address c of None \<Rightarrow> PyNone | Some a \<Rightarrow> PyStr a),
      (''recommended_master_copy_version'', PyStr (recommended_master_copy_version c)),
      (''disabled_wallets'', PyList
         (map (\<lambda>w. PyStr (Wallet.key w)) (order_by Wallet.key (disabled_wallets c)))),
      (''features'', PyList
         (map (\<lambda>f. PyStr (Feature.key f)) (order_by Feature.key (feature_set c))))]))"
  by (simp add: ChainSerializer_data_def field_defs transaction_service_def
      vpc_transaction_service_def get_rpc_uri_def RpcUriSerializer_data_def
      get_safe_apps_rpc_uri_def SafeAppsRpcUriSerializer_data_def
      get_block_explorer_uri_template_def BlockExplorerUriTemplateSerializer_data_def
      get_native_currency_def CurrencySerializer_data_def get_theme_def ThemeSerializer_data_def
      get_disabled_wallets_eq get_features_eq ImageField_def
      split: sum.splits option.splits ImageFieldFile.splits)

lemma sample_gas_price:
  "get_gas_price sample_chain = Inr (PyList
     [PyDict [(''type'', PyStr ''fixed''), (''wei_value'', PyStr ''1500'')],
      PyDict [(''type'', PyStr ''oracle''), (''uri'', PyStr ''https://gas.example/api''),
              (''gas_parameter'', PyStr ''fast''), (''gwei_factor'', PyStr ''10.000000000'')]])"
  by (simp add: get_gas_price_def sample_chain_def order_by_def ListSerializer_data_def
      GasPriceSerializer_to_representation_def truthy_str_def truthy_int_def
      GasPriceOracleSerializer_data_eq GasPriceFixedSerializer_data_eq decimal_defs
      replicate_numeral_unfold str_int_def)

text \<open>
  C4. The \<^verbatim>\<open>disabled_wallets\<close> and \<^verbatim>\<open>features\<close> arrays of a chain are the key strings of the
  chain's disabled wallets and of its features, each element a record's key itself, listed
  in ascending order of the keys (strings compared character by character).
\<close>

theorem wallets_features_sorted:
  "(\<exists>ks. get_disabled_wallets c = Inr (PyList (map PyStr ks)) \<and> sorted ks
        \<and> mset ks = mset (map Wallet.key (disabled_wallets c)))
 \<and> (\<exists>ks. get_features c = Inr (PyList (map PyStr ks)) \<and> sorted ks
        \<and> mset ks = mset (map Feature.key (feature_set c)))"
proof
  let ?ws = "order_by Wallet.key (disabled_wallets c)"
  have "get_disabled_wallets c = Inr (PyList (map PyStr (map Wallet.key ?ws)))"
    by (simp add: get_disabled_wallets_eq comp_def)
  moreover have "sorted (map Wallet.key ?ws)"
    by (simp add: order_by_def)
  moreover have "mset (map Wallet.key ?ws) = mset (map Wallet.key (disabled_wallets c))"
    by (simp add: order_by_def)
  ultimately show "\<exists>ks. get_disabled_wallets c = Inr (PyList (map PyStr ks)) \<and> sorted ks
        \<and> mset ks = mset (map Wallet.key (disabled_wallets c))"
    by blast
next
  let ?fs = "order_by Feature.key (feature_set c)"
  have "get_features c = Inr (PyList (map PyStr (map Feature.key ?fs)))"
    by (simp add: get_features_eq comp_def)
  moreover have "sorted (map Feature.key ?fs)"
    by (simp add: order_by_def)
  moreover have "mset (map Feature.key ?fs) = mset (map Feature.key (feature_set c))"
    by (simp add: order_by_def)
  ultimately show "\<exists>ks. get_features c = Inr (PyList (map PyStr ks)) \<and> sorted ks
        \<and> mset ks = mset (map Feature.key (feature_set c))"
    by blast
qed

text \<open>
  C5. The \<^verbatim>\<open>gas_price\<close> array of a chain is the list of the representations of the chain's
  gas price records taken in ascending order of \<^verbatim>\<open>rank\<close>; the array exists whenever every gas
  price record of the chain has a representation.
\<close>

theorem gas_price_ranked:
  "(get_gas_price c = Inr out \<longrightarrow>
      (\<exists>gs vs. out = PyList vs \<and> mset gs = mset (gasprice_set c) \<and> sorted (map rank gs)
         \<and> map GasPriceSerializer_to_representation gs = map Inr vs))
 \<and> ((\<forall>g\<in>set (gasprice_set c). \<exists>v. GasPriceSerializer_to_representation g = Inr v) \<longrightarrow>
      (\<exists>vs. get_gas_price c = Inr (PyList vs)))"
proof (intro conjI impI)
  let ?gs = "order_by rank (gasprice_set c)"
  assume "get_gas_price c = Inr out"
  then obtain vs
    where vs: "ListSerializer_to_representation GasPriceSerializer_to_representation ?gs = Inr vs"
      and out: "out = PyList vs"
    by (auto simp add: get_gas_price_def ListSerializer_data_def split: sum.splits)
  have "map GasPriceSerializer_to_representation ?gs = map Inr vs"
    using vs by (rule ListSerializer_Inr)
  moreover have "mset ?gs = mset (gasprice_set c)" "sorted (map rank ?gs)"
    by (simp_all add: order_by_def)
  ultimately show "\<exists>gs vs. out = PyList vs \<and> mset gs = mset (gasprice_set c)
         \<and> sorted (map rank gs)
         \<and> map GasPriceSerializer_to_representation gs = map Inr vs"
    using out by blast
next
  let ?gs = "order_by rank (gasprice_set c)"
  assume "\<forall>g\<in>set (gasprice_set c). \<exists>v. GasPriceSerializer_to_representation g = Inr v"
  then have "\<forall>g\<in>set ?gs. \<exists>v. GasPriceSerializer_to_representation g = Inr v"
    by (simp add: order_by_def)
  then obtain vs
    where "ListSerializer_to_representation GasPriceSerializer_to_representation ?gs = Inr vs"
    using ListSerializer_all_Inr by blast
  then show "\<exists>vs. get_gas_price c = Inr (PyList vs)"
    by (simp add: get_gas_price_def ListSerializer_data_def)
qed

theorem gas_price_ranked_witness:
  "get_gas_price sample_chain = Inr (PyList
     [PyDict [(''type'', PyStr ''fixed''), (''wei_value'', PyStr ''1500'')],
      PyDict [(''type'', PyStr ''oracle''), (''uri'', PyStr ''https://gas.example/api''),
              (''gas_parameter'', PyStr ''fast''), (''gwei_factor'', PyStr ''10.000000000'')]])
   \<and> (\<exists>gs vs. PyList
     [PyDict [(''type'', PyStr ''fixed''), (''wei_value'', PyStr ''1500'')],
      PyDict [(''type'', PyStr ''oracle''), (''uri'', PyStr ''https://gas.example/api''),
              (''gas_parameter'', PyStr ''fast''), (''gwei_factor'', PyStr ''10.000000000'')]]
       = PyList vs \<and> mset gs = mset (gasprice_set sample_chain) \<and> sorted (map rank gs)
         \<and> map GasPriceSerializer_to_representation gs = map Inr vs)
   \<and> (\<exists>vs. get_gas_price sample_chain = Inr (PyList vs))"
proof -
  have all: "\<forall>g\<in>set (gasprice_set sample_chain). \<exists>v. GasPriceSerializer_to_representation g = Inr v"
    by (simp add: sample_chain_def GasPriceSerializer_to_representation_def truthy_str_def
        truthy_int_def GasPriceOracleSerializer_data_eq GasPriceFixedSerializer_data_eq
        decimal_defs)
  note ranked = gas_price_ranked [of sample_chain]
  from ranked [THEN conjunct1, THEN mp, OF sample_gas_price]
    ranked [THEN conjunct2, THEN mp, OF all] sample_gas_price
  show ?thesis
    by (intro conjI)
qed

text \<open>
  C6. The output for a chain is an object with exactly the seventeen fields of
  \<^verbatim>\<open>Meta.fields\<close>, in that order, in which \<^verbatim>\<open>rpc_uri\<close> and \<^verbatim>\<open>safe_apps_rpc_uri\<close> are objects
  with the keys \<^verbatim>\<open>authentication\<close> and \<^verbatim>\<open>value\<close>, \<^verbatim>\<open>block_explorer_uri_template\<close> has the keys
  \<^verbatim>\<open>address\<close>, \<^verbatim>\<open>tx_hash\<close> and \<^verbatim>\<open>api\<close>, \<^verbatim>\<open>native_currency\<close> has the keys \<^verbatim>\<open>name\<close>, \<^verbatim>\<open>symbol\<close>,
  \<^verbatim>\<open>decimals\<close> and \<^verbatim>\<open>logo_uri\<close>, and \<^verbatim>\<open>theme\<close> has the keys \<^verbatim>\<open>text_color\<close> and
  \<^verbatim>\<open>background_color\<close>. There is an output whenever the gas price list of the chain has a
  representation; otherwise the exception raised for the gas price list is the outcome.
\<close>

theorem chain_fields:
  "(get_gas_price c = Inr gas_price \<longrightarrow>
      (\<exists>chain_id chain_name short_name description l2 rpc_authentication rpc_value
         apps_authentication apps_value address tx_hash api currency_name symbol decimals
         logo_uri transaction_service vpc_transaction_service text_color background_color
         ens_registry_address recommended_master_copy_version disabled_wallets features.
       ChainSerializer_data c = Inr (PyDict
         [(''chain_id'', chain_id),
          (''chain_name'', chain_name),
          (''short_name'', short_name),
          (''description'', description),
          (''l2'', l2),
          (''rpc_uri'', PyDict [(''authentication'', rpc_authentication), (''value'', rpc_value)]),
          (''safe_apps_rpc_uri'', PyDict
             [(''authentication'', apps_authentication), (''value'', apps_value)]),
          (''block_explorer_uri_template'', PyDict
             [(''address'', address), (''tx_hash'', tx_hash), (''api'', api)]),
          (''native_currency'', PyDict
             [(''name'', currency_name), (''symbol'', symbol), (''decimals'', decimals),
              (''logo_uri'', logo_uri)]),
          (''transaction_service'', transaction_service),
          (''vpc_transaction_service'', vpc_transaction_service),
          (''theme'', PyDict [(''text_color'', text_color), (''background_color'', background_color)]),
          (''gas_price'', gas_price),
          (''ens_registry_address'', ens_registry_address),
          (''recommended_master_copy_version'', recommended_master_copy_version),
          (''disabled_wallets'', disabled_wallets),
          (''features'', features)])))
   \<and> (get_gas_price c = Inl e \<longrightarrow> ChainSerializer_data c = Inl e)"
  by (simp add: ChainSerializer_data_eq)

theorem chain_fields_witness:
  "\<exists>chain_id chain_name short_name description l2 rpc_authentication rpc_value
         apps_authentication apps_value address tx_hash api currency_name symbol decimals
         logo_uri transaction_service vpc_transaction_service text_color background_color
         ens_registry_address recommended_master_copy_version disabled_wallets features.
       ChainSerializer_data sample_chain = Inr (PyDict
         [(''chain_id'', chain_id),
          (''chain_name'', chain_name),
          (''short_name'', short_name),
          (''description'', description),
          (''l2'', l2),
          (''rpc_uri'', PyDict [(''authentication'', rpc_authentication), (''value'', rpc_value)]),
          (''safe_apps_rpc_uri'', PyDict
             [(''authentication'', apps_authentication), (''value'', apps_value)]),
          (''block_explorer_uri_template'', PyDict
             [(''address'', address), (''tx_hash'', tx_hash), (''api'', api)]),
          (''native_currency'', PyDict
             [(''name'', currency_name), (''symbol'', symbol), (''decimals'', decimals),
              (''logo_uri'', logo_uri)]),
          (''transaction_service'', transaction_service),
          (''vpc_transaction_service'', vpc_transaction_service),
          (''theme'', PyDict [(''text_color'', text_color), (''background_color'', background_color)]),
          (''gas_price'', PyList
             [PyDict [(''type'', PyStr ''fixed''), (''wei_value'', PyStr ''1500'')],
              PyDict [(''type'', PyStr ''oracle''), (''uri'', PyStr ''https://gas.example/api''),
                      (''gas_parameter'', PyStr ''fast''),
                      (''gwei_factor'', PyStr ''10.000000000'')]]),
          (''ens_registry_address'', ens_registry_address),
          (''recommended_master_copy_version'', recommended_master_copy_version),
          (''disabled_wallets'', disabled_wallets),
          (''features'', features)])"
  by (rule chain_fields [THEN conjunct1, THEN mp, OF sample_gas_price])

text \<open>
  C9. When a chain has no \<^verbatim>\<open>transaction_service_uri\<close>, the output still has the field
  \<^verbatim>\<open>transaction_service\<close>, with the value \<^verbatim>\<open>None\<close>: the field is neither left out nor a
  failure, both when the attribute is \<^verbatim>\<open>None\<close> and when the lookup of the attribute fails, in
  which case the declared default \<^verbatim>\<open>None\<close> is used. \<^verbatim>\<open>vpc_transaction_service\<close> has no
  default, and a failed lookup of its attribute is an error.
\<close>

theorem transaction_service_default:
  "(transaction_service_uri c = None \<and> get_gas_price c = Inr gas_price \<longrightarrow>
      (\<exists>d. ChainSerializer_data c = Inr (PyDict d)
         \<and> map_of d ''transaction_service'' = Some PyNone))
   \<and> transaction_service (Attribute None) = (''transaction_service'', Inr PyNone)
   \<and> transaction_service NoAttribute = (''transaction_service'', Inr PyNone)
   \<and> vpc_transaction_service NoAttribute =
       (''vpc_transaction_service'', Inl (AttributeError ''vpc_transaction_service''))"
  by (simp add: ChainSerializer_data_eq transaction_service_def vpc_transaction_service_def
      Field_def Field_get_attribute_def field_value_def)

theorem transaction_service_default_witness:
  "transaction_service_uri sample_chain = None
   \<and> (\<exists>d. ChainSerializer_data sample_chain = Inr (PyDict d)
         \<and> map_of d ''transaction_service'' = Some PyNone)"
proof -
  have n: "transaction_service_uri sample_chain = None"
    by (simp add: sample_chain_def)
  from transaction_service_default [of sample_chain, THEN conjunct1, THEN mp, OF conjI, OF n sample_gas_price] n
  show ?thesis
    by (intro conjI)
qed

text \<open>
  C10. The \<^verbatim>\<open>chain_id\<close> field of the output for a chain is a string, the decimal numeral of
  the chain's \<^verbatim>\<open>id\<close>, and not the number itself.
\<close>

theorem chain_id_string:
  assumes "get_gas_price c = Inr gas_price"
  shows "\<exists>d. ChainSerializer_data c = Inr (PyDict d)
           \<and> map_of d ''chain_id'' = Some (PyStr (str_int (id_attr c)))
           \<and> map_of d ''chain_id'' \<noteq> Some (PyInt (id_attr c))
           \<and> (0 \<le> id_attr c \<longrightarrow> digits_value (str_int (id_attr c)) = nat (id_attr c))"
  using assms by (simp add: ChainSerializer_data_eq digits_value_str_int)

theorem chain_id_string_witness:
  "\<exists>d. ChainSerializer_data sample_chain = Inr (PyDict d)
       \<and> map_of d ''chain_id'' = Some (PyStr ''137'')"
proof -
  have i: "str_int (id_attr sample_chain) = ''137''"
    by (simp add: sample_chain_def str_int_def str_nat.simps digit_char_def)
  from chain_id_string [OF sample_gas_price] i show ?thesis
    by auto
qed

end
